theory Spec2Isabelle
  imports Complex_Main
begin

section \<open>JavaScript values\<close>

text \<open>
  A JavaScript number is an IEEE-754 double. The finite doubles are idealised as the
  reals they denote (\<open>Fin\<close>): rounding, overflow to infinity and the sign of zero are not
  modelled. The three special values are kept, because the arithmetic of the helper
  reaches them: \<open>NaN\<close>, \<open>Infinity\<close> (\<open>PInf\<close>) and \<open>-Infinity\<close> (\<open>NInf\<close>).
\<close>

datatype number = NaN | PInf | NInf | Fin real

text \<open>
  The values the helper handles where a number is expected: \<open>undefined\<close> (a missing
  argument, a field the browser does not provide) or a number.
\<close>

datatype jsval = Undefined | Num number

text \<open>\<open>ToNumber\<close>: \<open>undefined\<close> converts to \<open>NaN\<close>.\<close>

fun toNumber :: "jsval \<Rightarrow> number" where
  "toNumber Undefined = NaN"
| "toNumber (Num n) = n"

text \<open>The operator \<open>+\<close> on numbers.\<close>

fun jadd :: "number \<Rightarrow> number \<Rightarrow> number" where
  "jadd NaN _ = NaN"
| "jadd _ NaN = NaN"
| "jadd PInf NInf = NaN"
| "jadd NInf PInf = NaN"
| "jadd PInf _ = PInf"
| "jadd NInf _ = NInf"
| "jadd (Fin a) PInf = PInf"
| "jadd (Fin a) NInf = NInf"
| "jadd (Fin a) (Fin b) = Fin (a + b)"

text \<open>The sign of a number that is not \<open>NaN\<close>; zero counts as positive.\<close>

fun negative :: "number \<Rightarrow> bool" where
  "negative NInf = True"
| "negative (Fin a) = (a < 0)"
| "negative _ = False"

definition infinity :: "bool \<Rightarrow> number" where
  "infinity neg = (if neg then NInf else PInf)"

text \<open>The operator \<open>*\<close>: infinity times zero is \<open>NaN\<close>.\<close>

fun jmul :: "number \<Rightarrow> number \<Rightarrow> number" where
  "jmul NaN _ = NaN"
| "jmul _ NaN = NaN"
| "jmul (Fin a) (Fin b) = Fin (a * b)"
| "jmul x y =
     (if x = Fin 0 \<or> y = Fin 0 then NaN else infinity (negative x \<noteq> negative y))"

text \<open>
  The operator \<open>/\<close>: a finite number divided by an infinity is zero, a non-zero number
  divided by zero is an infinity, and zero by zero and infinity by infinity are \<open>NaN\<close>.
\<close>

fun jdiv :: "number \<Rightarrow> number \<Rightarrow> number" where
  "jdiv NaN _ = NaN"
| "jdiv _ NaN = NaN"
| "jdiv (Fin a) (Fin b) =
     (if b = 0 then (if a = 0 then NaN else infinity (a < 0)) else Fin (a / b))"
| "jdiv (Fin a) y = Fin 0"
| "jdiv x (Fin b) = infinity (negative x \<noteq> (b < 0))"
| "jdiv x y = NaN"

text \<open>
  \<open>a + b\<close> where both operands are \<open>undefined\<close> or numbers: both are converted with
  \<open>ToNumber\<close> and added.
\<close>

definition js_plus :: "jsval \<Rightarrow> jsval \<Rightarrow> number" where
  "js_plus a b = jadd (toNumber a) (toNumber b)"

subsection \<open>The global function parseFloat\<close>

text \<open>
  \<open>parseFloat\<close> skips leading white space, reads the longest prefix that is a decimal
  literal (a sign, \<open>Infinity\<close> or digits with an optional fraction and exponent) and
  ignores what follows; without such a prefix the result is \<open>NaN\<close>. A \<open>char\<close> is a byte,
  so the white space is the ASCII one.
\<close>

definition isStrWhiteSpaceChar :: "char \<Rightarrow> bool" where
  "isStrWhiteSpaceChar c = (of_char c \<in> set [9, 10, 11, 12, 13, 32 :: nat])"

definition isDecimalDigit :: "char \<Rightarrow> bool" where
  "isDecimalDigit c = (48 \<le> (of_char c :: nat) \<and> (of_char c :: nat) \<le> 57)"

definition decimalValue :: "string \<Rightarrow> nat" where
  "decimalValue ds = foldl (\<lambda>n c. 10 * n + (of_char c - 48)) 0 ds"

text \<open>An optional sign: whether it is a minus, and the rest of the string.\<close>

fun signOf :: "string \<Rightarrow> bool \<times> string" where
  "signOf [] = (False, [])"
| "signOf (c # r) =
     (if c = CHR ''-'' then (True, r) else if c = CHR ''+'' then (False, r)
      else (False, c # r))"

text \<open>
  The value of the exponent part at the head of the string: \<open>e\<close> or \<open>E\<close>, an optional
  sign and at least one digit; 0 when there is no exponent part.
\<close>

fun exponentPart :: "string \<Rightarrow> int" where
  "exponentPart [] = 0"
| "exponentPart (c # r) =
     (if c = CHR ''e'' \<or> c = CHR ''E'' then
        (let (neg, d) = signOf r; ds = takeWhile isDecimalDigit d
         in if ds = [] then 0
            else if neg then - int (decimalValue ds) else int (decimalValue ds))
      else 0)"

text \<open>The digits of the fraction at the head of the string, and the rest.\<close>

fun fractionPart :: "string \<Rightarrow> string \<times> string" where
  "fractionPart [] = ([], [])"
| "fractionPart (c # r) =
     (if c = CHR ''.'' then (takeWhile isDecimalDigit r, dropWhile isDecimalDigit r)
      else ([], c # r))"

definition scale10 :: "real \<Rightarrow> int \<Rightarrow> real" where
  "scale10 x e = (if 0 \<le> e then x * 10 ^ nat e else x / 10 ^ nat (- e))"

definition parseFloat :: "string \<Rightarrow> number" where
  "parseFloat s =
     (let (neg, u) = signOf (dropWhile isStrWhiteSpaceChar s)
      in if take 8 u = ''Infinity'' then infinity neg
         else
           (let ip = takeWhile isDecimalDigit u;
                (fp, r) = fractionPart (dropWhile isDecimalDigit u);
                m = scale10 (real (decimalValue (ip @ fp))) (exponentPart r - int (length fp))
            in if ip = [] \<and> fp = [] then NaN
               else Fin (if neg then - m else m)))"

section \<open>The browser\<close>

text \<open>
  The fields of a computed style that the helper reads. Each is a string, as
  \<open>CSSStyleDeclaration\<close> gives it: \<open>''48px''\<close>, \<open>''normal''\<close>.
\<close>

record style =
  fontSize :: string
  fontFamily :: string
  fontWeight :: string
  fontStyle :: string
  lineHeight :: string

text \<open>
  The two fields of a \<open>TextMetrics\<close> object that the helper reads. A browser without
  support for them leaves them \<open>undefined\<close>.
\<close>

record TextMetrics =
  actualBoundingBoxAscent :: jsval
  actualBoundingBoxDescent :: jsval

text \<open>A DOM element is known by its identity.\<close>

type_synonym element = nat

text \<open>
  The font of the canvas context. The source assigns the template string made of
  fontStyle, fontWeight, fontSize (followed by \<open>px\<close>) and fontFamily; the model keeps
  its four parts, in that order, and does not format the number.
\<close>

type_synonym font = "string \<times> string \<times> number \<times> string"

text \<open>
  The state of the page as the helper sees it: the computed style of each element now
  (\<open>window.getComputedStyle\<close>), what measuring a text in a font answers
  (\<open>CanvasRenderingContext2D.measureText\<close>), the calls of \<open>measureText\<close> made so far and
  the messages written with \<open>console.warn\<close>, oldest first.
\<close>

record browser =
  getComputedStyle :: "element \<Rightarrow> style"
  measureText :: "font \<Rightarrow> string \<Rightarrow> TextMetrics"
  measured :: "(font \<times> string) list"
  console :: "string list"

definition console_warn :: "string \<Rightarrow> browser \<Rightarrow> browser" where
  "console_warn msg w = w\<lparr>console := console w @ [msg]\<rparr>"

definition ctx_measureText :: "font \<Rightarrow> string \<Rightarrow> browser \<Rightarrow> TextMetrics \<times> browser" where
  "ctx_measureText f t w = (measureText w f t, w\<lparr>measured := measured w @ [(f, t)]\<rparr>)"

section \<open>The class TextMetricsHelper\<close>

datatype error = Error string

record TextMetricsHelper =
  element :: element
  referenceText :: string
  fontSize :: number
  fontFamily :: string
  fontWeight :: string
  fontStyle :: string
  ctx_font :: font
  metrics :: TextMetrics

text \<open>
  The default reference text: a capital A with diaeresis (two bytes in UTF-8) followed
  by \<open>yG|?\<close>.
\<close>

definition defaultReferenceText :: string where
  "defaultReferenceText = [char_of (195::nat), char_of (132::nat)] @ ''yG|?''"

text \<open>
  The constructor. The first argument is \<open>None\<close> for \<open>null\<close> or \<open>undefined\<close> (an element
  is an object, so \<open>!element\<close> holds for these only), the second is \<open>None\<close> when the
  reference text is omitted. The result is \<open>Inl\<close> of the error thrown or \<open>Inr\<close> of the new
  object, with the browser after the call; a \<open>throw\<close> leaves the browser as it was. The
  canvas and its context are kept as the font assigned to the context (\<open>ctx_font\<close>), which
  is all that \<open>measureText\<close> depends on.
\<close>

definition "constructor" ::
  "element option \<Rightarrow> string option \<Rightarrow> browser \<Rightarrow> (error + TextMetricsHelper) \<times> browser" where
  "constructor elem refText w =
     (case elem of
        None \<Rightarrow> (Inl (Error ''TextMetricsHelper: no element provided.''), w)
      | Some el \<Rightarrow>
          (let text = (case refText of None \<Rightarrow> defaultReferenceText | Some t \<Rightarrow> t);
               st = getComputedStyle w el;
               size = parseFloat (style.fontSize st);
               f = (style.fontStyle st, style.fontWeight st, size, style.fontFamily st);
               (m, w') = ctx_measureText f text w
           in (Inr \<lparr>element = el, referenceText = text,
                     fontSize = size,
                     fontFamily = style.fontFamily st,
                     fontWeight = style.fontWeight st,
                     fontStyle = style.fontStyle st,
                     ctx_font = f, metrics = m\<rparr>, w')))"

text \<open>\<open>getMinLineHeight\<close> returns a number and may write a warning.\<close>

definition getMinLineHeight :: "TextMetricsHelper \<Rightarrow> browser \<Rightarrow> number \<times> browser" where
  "getMinLineHeight this w =
     (if actualBoundingBoxAscent (metrics this) = Undefined \<or>
         actualBoundingBoxDescent (metrics this) = Undefined
      then (Fin 1,
            console_warn ''actualBoundingBoxAscent/Descent not supported. Fallback = 1.0'' w)
      else (jdiv (js_plus (actualBoundingBoxAscent (metrics this))
                          (actualBoundingBoxDescent (metrics this)))
                 (fontSize this), w))"

definition estimateNormalLineHeight :: "TextMetricsHelper \<Rightarrow> number" where
  "estimateNormalLineHeight this =
     (let ascent = actualBoundingBoxAscent (metrics this);
          descent = actualBoundingBoxDescent (metrics this);
          visual = js_plus ascent descent
      in jmul (jdiv visual (fontSize this)) (Fin 1.1))"

text \<open>\<open>getElementLineHeight\<close> reads the computed style of the element at the call.\<close>

definition getElementLineHeight :: "TextMetricsHelper \<Rightarrow> browser \<Rightarrow> number" where
  "getElementLineHeight this w =
     (let st = getComputedStyle w (element this)
      in if style.lineHeight st = ''normal'' then estimateNormalLineHeight this
         else jdiv (parseFloat (style.lineHeight st)) (fontSize this))"

text \<open>
  A parameter with a default takes it when the argument is \<open>undefined\<close>. The default of
  the parameter \<open>lineHeight\<close> (here \<open>lineHeight'\<close>, the name being a field of the style) is
  evaluated only then.
\<close>

definition getHeightForLines ::
  "TextMetricsHelper \<Rightarrow> jsval \<Rightarrow> jsval \<Rightarrow> browser \<Rightarrow> number" where
  "getHeightForLines this lineCount lineHeight' w =
     (let lc = (case lineCount of Undefined \<Rightarrow> Fin 1 | Num n \<Rightarrow> n);
          lh = (case lineHeight' of Undefined \<Rightarrow> getElementLineHeight this w | Num n \<Rightarrow> n)
      in jmul (jmul lh (fontSize this)) lc)"

definition getMinHeightForLines ::
  "TextMetricsHelper \<Rightarrow> jsval \<Rightarrow> browser \<Rightarrow> number \<times> browser" where
  "getMinHeightForLines this lineCount w =
     (let lc = (case lineCount of Undefined \<Rightarrow> Fin 1 | Num n \<Rightarrow> n);
          (minLH, w') = getMinLineHeight this w
      in (getHeightForLines this (Num lc) (Num minLH) w', w'))"

record Metrics =
  fontSize :: number
  ascent :: jsval
  descent :: jsval
  minLineHeight :: number
  currentLineHeight :: number

definition getMetrics :: "TextMetricsHelper \<Rightarrow> browser \<Rightarrow> Metrics \<times> browser" where
  "getMetrics this w =
     (let (minLH, w') = getMinLineHeight this w;
          cur = getElementLineHeight this w'
      in (\<lparr>Metrics.fontSize = TextMetricsHelper.fontSize this,
           ascent = actualBoundingBoxAscent (metrics this),
           descent = actualBoundingBoxDescent (metrics this),
           minLineHeight = minLH,
           currentLineHeight = cur\<rparr>, w'))"

section \<open>Example pages\<close>

text \<open>
  A page where every element has the given font size and line-height, and where
  measuring any text answers the given ascent and descent; nothing has been measured or
  logged yet.
\<close>

definition page :: "string \<Rightarrow> string \<Rightarrow> jsval \<Rightarrow> jsval \<Rightarrow> browser" where
  "page sz lh asc desc =
     \<lparr>getComputedStyle = (\<lambda>el. \<lparr>style.fontSize = sz, style.fontFamily = ''serif'',
          style.fontWeight = ''400'', style.fontStyle = ''normal'', lineHeight = lh\<rparr>),
      measureText = (\<lambda>f t. \<lparr>actualBoundingBoxAscent = asc, actualBoundingBoxDescent = desc\<rparr>),
      measured = [], console = []\<rparr>"

text \<open>The helper that the constructor builds for element 0 of such a page at 48px.\<close>

definition helper48 :: "jsval \<Rightarrow> jsval \<Rightarrow> TextMetricsHelper" where
  "helper48 asc desc =
     \<lparr>element = 0, referenceText = defaultReferenceText, fontSize = Fin 48,
      fontFamily = ''serif'', fontWeight = ''400'', fontStyle = ''normal'',
      ctx_font = (''normal'', ''400'', Fin 48, ''serif''),
      metrics = \<lparr>actualBoundingBoxAscent = asc, actualBoundingBoxDescent = desc\<rparr>\<rparr>"

text \<open>
  The page changes the line-height of one element, as a script or a style sheet does;
  the helper has no part in it.
\<close>

definition setLineHeight :: "element \<Rightarrow> string \<Rightarrow> browser \<Rightarrow> browser" where
  "setLineHeight el lh w =
     w\<lparr>getComputedStyle := (getComputedStyle w)(el := (getComputedStyle w el)\<lparr>lineHeight := lh\<rparr>)\<rparr>"

section \<open>Arithmetic and parsing lemmas\<close>

lemma jmul_one: "jmul x (Fin 1) = x"
  by (cases x) (simp_all add: infinity_def)

lemma jmul_double: "jmul x (Fin (2 * r)) = jmul (Fin 2) (jmul x (Fin r))"
  by (cases x) (simp_all add: infinity_def)

lemmas parse_defs = parseFloat_def isStrWhiteSpaceChar_def isDecimalDigit_def
  decimalValue_def scale10_def

lemma parseFloat_48px: "parseFloat ''48px'' = Fin 48"
  by (simp add: parse_defs)

lemma parseFloat_57_6px: "parseFloat ''57.6px'' = Fin 57.6"
  by (simp add: parse_defs)

lemma parseFloat_96px: "parseFloat ''96px'' = Fin 96"
  by (simp add: parse_defs)







section \<open>Lemmas about the helper\<close>

text \<open>On an example page at 48px the constructor builds \<open>helper48\<close> and measures once.\<close>

lemma constructor_page:
  "constructor (Some 0) None (page ''48px'' lh asc desc) =
     (Inr (helper48 asc desc),
      (page ''48px'' lh asc desc)
        \<lparr>measured := [((''normal'', ''400'', Fin 48, ''serif''), defaultReferenceText)]\<rparr>)"
  by (simp add: constructor_def page_def helper48_def ctx_measureText_def parseFloat_48px Let_def)

lemma getElementLineHeight_page:
  "getElementLineHeight (helper48 asc desc) (page sz lh asc' desc') =
     (if lh = ''normal'' then jmul (jdiv (js_plus asc desc) (Fin 48)) (Fin 1.1)
      else jdiv (parseFloat lh) (Fin 48))"
  by (simp add: getElementLineHeight_def estimateNormalLineHeight_def helper48_def page_def)

lemma getElementLineHeight_console_warn:
  "getElementLineHeight this (console_warn msg w) = getElementLineHeight this w"
  by (simp add: getElementLineHeight_def console_warn_def)

lemma getMinLineHeight_value:
  "fst (getMinLineHeight this w) =
     (if actualBoundingBoxAscent (metrics this) = Undefined \<or>
         actualBoundingBoxDescent (metrics this) = Undefined then Fin 1
      else jdiv (js_plus (actualBoundingBoxAscent (metrics this))
                         (actualBoundingBoxDescent (metrics this)))
                (TextMetricsHelper.fontSize this))"
  by (simp add: getMinLineHeight_def)

lemma getElementLineHeight_cong:
  "style.lineHeight (getComputedStyle w (element this)) =
     style.lineHeight (getComputedStyle w' (element this)) \<Longrightarrow>
   getElementLineHeight this w = getElementLineHeight this w'"
  by (simp add: getElementLineHeight_def)

lemma getComputedStyle_getMinLineHeight:
  "getComputedStyle (snd (getMinLineHeight this w)) = getComputedStyle w"
  by (simp add: getMinLineHeight_def console_warn_def)

section \<open>The minimal line-height\<close>

text \<open>
  C1. For every helper whose measured ascent and descent are both present (numbers, not
  \<open>undefined\<close>), \<open>getMinLineHeight()\<close> returns exactly \<open>(ascent + descent) / fontSize\<close>, and
  writes no warning. For a finite ascent \<open>x\<close>, a finite descent \<open>y\<close> and a finite font size
  \<open>f\<close> other than zero, that is the number \<open>(x + y) / f\<close>.
\<close>

theorem getMinLineHeight_measured:
  assumes "actualBoundingBoxAscent (metrics this) = Num a"
    and "actualBoundingBoxDescent (metrics this) = Num d"
  shows "getMinLineHeight this w = (jdiv (jadd a d) (TextMetricsHelper.fontSize this), w) \<and>
         (a = Fin x \<and> d = Fin y \<and> TextMetricsHelper.fontSize this = Fin f \<and> f \<noteq> 0 \<longrightarrow>
            getMinLineHeight this w = (Fin ((x + y) / f), w))"
  using assms by (simp add: getMinLineHeight_def js_plus_def)

theorem getMinLineHeight_measured_witness:
  "actualBoundingBoxAscent (metrics (helper48 (Num (Fin 30)) (Num (Fin 6)))) = Num (Fin 30) \<and>
   actualBoundingBoxDescent (metrics (helper48 (Num (Fin 30)) (Num (Fin 6)))) = Num (Fin 6) \<and>
   TextMetricsHelper.fontSize (helper48 (Num (Fin 30)) (Num (Fin 6))) = Fin 48 \<and>
   getMinLineHeight (helper48 (Num (Fin 30)) (Num (Fin 6)))
       (page ''48px'' ''normal'' (Num (Fin 30)) (Num (Fin 6))) =
     (Fin 0.75, page ''48px'' ''normal'' (Num (Fin 30)) (Num (Fin 6)))"
proof -
  let ?h = "helper48 (Num (Fin 30)) (Num (Fin 6))"
  let ?w = "page ''48px'' ''normal'' (Num (Fin 30)) (Num (Fin 6))"
  have a: "actualBoundingBoxAscent (metrics ?h) = Num (Fin 30)"
    and d: "actualBoundingBoxDescent (metrics ?h) = Num (Fin 6)"
    and f: "TextMetricsHelper.fontSize ?h = Fin 48"
    by (simp_all add: helper48_def)
  have "getMinLineHeight ?h ?w = (Fin ((30 + 6) / 48), ?w)"
    using getMinLineHeight_measured [OF a d, where w = ?w and x = 30 and y = 6 and f = 48] f
    by simp
  then show ?thesis
    using a d f by simp
qed

text \<open>
  C2. For every helper whose measured ascent or descent is absent (\<open>undefined\<close>),
  \<open>getMinLineHeight()\<close> returns exactly 1 and one warning is appended to the console; the
  call returns normally, nothing is thrown.
\<close>

theorem getMinLineHeight_fallback:
  assumes "actualBoundingBoxAscent (metrics this) = Undefined \<or>
           actualBoundingBoxDescent (metrics this) = Undefined"
  shows "getMinLineHeight this w =
           (Fin 1, w\<lparr>console := console w @
              [''actualBoundingBoxAscent/Descent not supported. Fallback = 1.0'']\<rparr>)"
  using assms by (auto simp add: getMinLineHeight_def console_warn_def)

theorem getMinLineHeight_fallback_witness:
  "(actualBoundingBoxAscent (metrics (helper48 Undefined Undefined)) = Undefined \<or>
    actualBoundingBoxDescent (metrics (helper48 Undefined Undefined)) = Undefined) \<and>
   fst (getMinLineHeight (helper48 Undefined Undefined)
       (page ''48px'' ''normal'' Undefined Undefined)) = Fin 1 \<and>
   console (snd (getMinLineHeight (helper48 Undefined Undefined)
       (page ''48px'' ''normal'' Undefined Undefined))) =
     [''actualBoundingBoxAscent/Descent not supported. Fallback = 1.0'']"
  using getMinLineHeight_fallback [of "helper48 Undefined Undefined"
      "page ''48px'' ''normal'' Undefined Undefined"]
  by (simp add: helper48_def page_def)

section \<open>The line-height of the element\<close>

text \<open>
  C3. For every helper whose element has the computed line-height \<open>normal\<close> and whose
  measured ascent and descent are present, \<open>getElementLineHeight()\<close> returns exactly
  \<open>(ascent + descent) / fontSize * 1.1\<close>. For a finite ascent \<open>x\<close>, a finite descent \<open>y\<close>
  and a finite font size \<open>f\<close> other than zero, that is the number \<open>(x + y) / f * 1.1\<close>;
  with fontSize 48, ascent 40 and descent 8 it is 1.1.
\<close>

theorem getElementLineHeight_normal:
  assumes "style.lineHeight (getComputedStyle w (element this)) = ''normal''"
    and "actualBoundingBoxAscent (metrics this) = Num a"
    and "actualBoundingBoxDescent (metrics this) = Num d"
  shows "getElementLineHeight this w =
           jmul (jdiv (jadd a d) (TextMetricsHelper.fontSize this)) (Fin 1.1) \<and>
         (a = Fin x \<and> d = Fin y \<and> TextMetricsHelper.fontSize this = Fin f \<and> f \<noteq> 0 \<longrightarrow>
            getElementLineHeight this w = Fin ((x + y) / f * 1.1)) \<and>
         (TextMetricsHelper.fontSize this = Fin 48 \<and> a = Fin 40 \<and> d = Fin 8 \<longrightarrow>
            getElementLineHeight this w = Fin 1.1)"
  using assms
  by (simp add: getElementLineHeight_def estimateNormalLineHeight_def js_plus_def)

theorem getElementLineHeight_normal_witness:
  "style.lineHeight (getComputedStyle (page ''48px'' ''normal'' (Num (Fin 30)) (Num (Fin 6)))
      (element (helper48 (Num (Fin 30)) (Num (Fin 6))))) = ''normal'' \<and>
   actualBoundingBoxAscent (metrics (helper48 (Num (Fin 30)) (Num (Fin 6)))) = Num (Fin 30) \<and>
   actualBoundingBoxDescent (metrics (helper48 (Num (Fin 30)) (Num (Fin 6)))) = Num (Fin 6) \<and>
   TextMetricsHelper.fontSize (helper48 (Num (Fin 30)) (Num (Fin 6))) = Fin 48 \<and>
   getElementLineHeight (helper48 (Num (Fin 30)) (Num (Fin 6)))
       (page ''48px'' ''normal'' (Num (Fin 30)) (Num (Fin 6))) = Fin 0.825 \<and>
   getElementLineHeight (helper48 (Num (Fin 40)) (Num (Fin 8)))
       (page ''48px'' ''normal'' (Num (Fin 40)) (Num (Fin 8))) = Fin 1.1"
proof -
  let ?h = "helper48 (Num (Fin 30)) (Num (Fin 6))"
  let ?w = "page ''48px'' ''normal'' (Num (Fin 30)) (Num (Fin 6))"
  let ?h' = "helper48 (Num (Fin 40)) (Num (Fin 8))"
  let ?w' = "page ''48px'' ''normal'' (Num (Fin 40)) (Num (Fin 8))"
  have n: "style.lineHeight (getComputedStyle ?w (element ?h)) = ''normal''"
    and n': "style.lineHeight (getComputedStyle ?w' (element ?h')) = ''normal''"
    by (simp_all add: page_def)
  have a: "actualBoundingBoxAscent (metrics ?h) = Num (Fin 30)"
    and d: "actualBoundingBoxDescent (metrics ?h) = Num (Fin 6)"
    and f: "TextMetricsHelper.fontSize ?h = Fin 48"
    and a': "actualBoundingBoxAscent (metrics ?h') = Num (Fin 40)"
    and d': "actualBoundingBoxDescent (metrics ?h') = Num (Fin 8)"
    and f': "TextMetricsHelper.fontSize ?h' = Fin 48"
    by (simp_all add: helper48_def)
  have r: "getElementLineHeight ?h ?w = Fin ((30 + 6) / 48 * 1.1)"
    using getElementLineHeight_normal [OF n a d, where x = 30 and y = 6 and f = 48] f
    by simp
  have r': "getElementLineHeight ?h' ?w' = Fin 1.1"
    using getElementLineHeight_normal [OF n' a' d', where x = 40 and y = 8 and f = 48] f'
    by simp
  from r have "getElementLineHeight ?h ?w = Fin 0.825"
    by simp
  then show ?thesis
    using n a d f r' by simp
qed



section \<open>Pixel heights\<close>

text \<open>
  C5. For every line count \<open>n\<close> (any number: zero and negative ones too; the function has
  no failing branch) and every given line-height \<open>lh\<close>, \<open>getHeightForLines(n, lh)\<close> returns
  exactly \<open>lh * fontSize * n\<close>; hence for every natural number \<open>k\<close> the height for \<open>2 * k\<close>
  lines is twice the height for \<open>k\<close> lines; and with the line-height omitted the result is
  the one for the value of \<open>getElementLineHeight()\<close>.
\<close>

theorem getHeightForLines_formula:
  "getHeightForLines this (Num n) (Num lh) w =
     jmul (jmul lh (TextMetricsHelper.fontSize this)) n \<and>
   getHeightForLines this (Num (Fin (2 * real k))) (Num lh) w =
     jmul (Fin 2) (getHeightForLines this (Num (Fin (real k))) (Num lh) w) \<and>
   getHeightForLines this (Num n) Undefined w =
     getHeightForLines this (Num n) (Num (getElementLineHeight this w)) w"
  by (simp add: getHeightForLines_def jmul_double)

theorem getHeightForLines_formula_witness:
  "getHeightForLines (helper48 (Num (Fin 40)) (Num (Fin 8))) (Num (Fin 3)) (Num (Fin 1.5))
       (page ''48px'' ''57.6px'' (Num (Fin 40)) (Num (Fin 8))) = Fin 216 \<and>
   getHeightForLines (helper48 (Num (Fin 40)) (Num (Fin 8))) (Num (Fin 0)) (Num (Fin 1.5))
       (page ''48px'' ''57.6px'' (Num (Fin 40)) (Num (Fin 8))) = Fin 0 \<and>
   getHeightForLines (helper48 (Num (Fin 40)) (Num (Fin 8))) (Num (Fin (- 2))) (Num (Fin 1.5))
       (page ''48px'' ''57.6px'' (Num (Fin 40)) (Num (Fin 8))) = Fin (- 144) \<and>
   getHeightForLines (helper48 (Num (Fin 40)) (Num (Fin 8))) (Num (Fin 3)) Undefined
       (page ''48px'' ''57.6px'' (Num (Fin 40)) (Num (Fin 8))) = Fin 172.8"
proof -
  let ?h = "helper48 (Num (Fin 40)) (Num (Fin 8))"
  let ?w = "page ''48px'' ''57.6px'' (Num (Fin 40)) (Num (Fin 8))"
  have fs: "TextMetricsHelper.fontSize ?h = Fin 48"
    by (simp add: helper48_def)
  have cur: "getElementLineHeight ?h ?w = Fin 1.2"
    by (simp add: getElementLineHeight_page parseFloat_57_6px)
  have a: "getHeightForLines ?h (Num (Fin 3)) (Num (Fin 1.5)) ?w = Fin 216"
    using getHeightForLines_formula [of ?h "Fin 3" "Fin 1.5" ?w 0] by (simp add: fs)
  have b: "getHeightForLines ?h (Num (Fin 0)) (Num (Fin 1.5)) ?w = Fin 0"
    using getHeightForLines_formula [of ?h "Fin 0" "Fin 1.5" ?w 0] by (simp add: fs)
  have c: "getHeightForLines ?h (Num (Fin (- 2))) (Num (Fin 1.5)) ?w = Fin (- 144)"
    using getHeightForLines_formula [of ?h "Fin (- 2)" "Fin 1.5" ?w 0] by (simp add: fs)
  have d: "getHeightForLines ?h (Num (Fin 3)) Undefined ?w = Fin 172.8"
    using getHeightForLines_formula [of ?h "Fin 3" "Fin 1.2" ?w 0] by (simp add: fs cur)
  from a b c d show ?thesis by simp
qed

section \<open>The estimate without measurements\<close>

text \<open>
  C6. For every helper whose element has the computed line-height \<open>normal\<close> and whose
  measured ascent or descent is absent, \<open>getElementLineHeight()\<close> has no fallback: the
  estimate adds \<open>undefined\<close>, and the result is \<open>NaN\<close>, not 1.
\<close>

theorem getElementLineHeight_normal_absent:
  assumes "style.lineHeight (getComputedStyle w (element this)) = ''normal''"
    and "actualBoundingBoxAscent (metrics this) = Undefined \<or>
         actualBoundingBoxDescent (metrics this) = Undefined"
  shows "getElementLineHeight this w = NaN \<and> getElementLineHeight this w \<noteq> Fin 1"
proof -
  have "js_plus (actualBoundingBoxAscent (metrics this))
          (actualBoundingBoxDescent (metrics this)) = NaN"
    using assms(2)
    by (cases "actualBoundingBoxAscent (metrics this)";
        cases "actualBoundingBoxDescent (metrics this)";
        cases "toNumber (actualBoundingBoxAscent (metrics this))")
       (auto simp add: js_plus_def)
  then show ?thesis
    using assms(1) by (simp add: getElementLineHeight_def estimateNormalLineHeight_def)
qed

theorem getElementLineHeight_normal_absent_witness:
  "style.lineHeight (getComputedStyle (page ''48px'' ''normal'' (Num (Fin 40)) Undefined)
      (element (helper48 (Num (Fin 40)) Undefined))) = ''normal'' \<and>
   actualBoundingBoxDescent (metrics (helper48 (Num (Fin 40)) Undefined)) = Undefined \<and>
   getElementLineHeight (helper48 (Num (Fin 40)) Undefined)
       (page ''48px'' ''normal'' (Num (Fin 40)) Undefined) = NaN"
  using getElementLineHeight_normal_absent [of "page ''48px'' ''normal'' (Num (Fin 40)) Undefined"
      "helper48 (Num (Fin 40)) Undefined"]
  by (simp add: helper48_def page_def)

section \<open>What the accessors depend on\<close>

text \<open>
  C7, as stated: two calls of \<open>getElementLineHeight()\<close> on one helper return equal results
  even if the computed style of the element changes between them. That fails. The
  helper built for element 0 of a page at 48px with the line-height \<open>57.6px\<close> returns 1.2;
  once the page has set the line-height of the element to \<open>96px\<close>, the same helper
  returns 2.
\<close>

theorem getElementLineHeight_observes_style_change:
  "constructor (Some 0) None (page ''48px'' ''57.6px'' (Num (Fin 40)) (Num (Fin 8))) =
     (Inr (helper48 (Num (Fin 40)) (Num (Fin 8))),
      (page ''48px'' ''57.6px'' (Num (Fin 40)) (Num (Fin 8)))
        \<lparr>measured := [((''normal'', ''400'', Fin 48, ''serif''), defaultReferenceText)]\<rparr>) \<and>
   getElementLineHeight (helper48 (Num (Fin 40)) (Num (Fin 8)))
     ((page ''48px'' ''57.6px'' (Num (Fin 40)) (Num (Fin 8)))
        \<lparr>measured := [((''normal'', ''400'', Fin 48, ''serif''), defaultReferenceText)]\<rparr>) =
     Fin 1.2 \<and>
   getElementLineHeight (helper48 (Num (Fin 40)) (Num (Fin 8)))
     (setLineHeight 0 ''96px''
       ((page ''48px'' ''57.6px'' (Num (Fin 40)) (Num (Fin 8)))
          \<lparr>measured := [((''normal'', ''400'', Fin 48, ''serif''), defaultReferenceText)]\<rparr>)) =
     Fin 2 \<and>
   getElementLineHeight (helper48 (Num (Fin 40)) (Num (Fin 8)))
     ((page ''48px'' ''57.6px'' (Num (Fin 40)) (Num (Fin 8)))
        \<lparr>measured := [((''normal'', ''400'', Fin 48, ''serif''), defaultReferenceText)]\<rparr>) \<noteq>
   getElementLineHeight (helper48 (Num (Fin 40)) (Num (Fin 8)))
     (setLineHeight 0 ''96px''
       ((page ''48px'' ''57.6px'' (Num (Fin 40)) (Num (Fin 8)))
          \<lparr>measured := [((''normal'', ''400'', Fin 48, ''serif''), defaultReferenceText)]\<rparr>))"
proof -
  let ?h = "helper48 (Num (Fin 40)) (Num (Fin 8))"
  let ?w = "(page ''48px'' ''57.6px'' (Num (Fin 40)) (Num (Fin 8)))
        \<lparr>measured := [((''normal'', ''400'', Fin 48, ''serif''), defaultReferenceText)]\<rparr>"
  have a: "getElementLineHeight ?h ?w = Fin 1.2"
    by (simp add: getElementLineHeight_def helper48_def page_def parseFloat_57_6px)
  have b: "getElementLineHeight ?h (setLineHeight 0 ''96px'' ?w) = Fin 2"
    by (simp add: getElementLineHeight_def helper48_def page_def setLineHeight_def
        parseFloat_96px)
  show ?thesis
    by (simp only: constructor_page a b) simp
qed

text \<open>
  C7, amended. The font size and the measured ascent and descent are the ones captured
  at construction; the line-height is read from the element at each call. So
  \<open>getMinLineHeight()\<close>, \<open>getMinHeightForLines(n)\<close> and \<open>getHeightForLines(n, lh)\<close>, and the
  fields of \<open>getMetrics()\<close> other than \<open>currentLineHeight\<close>, return the same result in any
  two states of the page, whatever has changed between them. \<open>getElementLineHeight()\<close>,
  \<open>getHeightForLines(n)\<close> and \<open>getMetrics()\<close> return the same result in any two states of
  the page in which the computed line-height of the element is the same, whatever else
  of its style (the font size too) has changed.
\<close>

theorem accessors_depend_on_line_height_only:
  "fst (getMinLineHeight this w) = fst (getMinLineHeight this w') \<and>
   fst (getMinHeightForLines this n w) = fst (getMinHeightForLines this n w') \<and>
   getHeightForLines this n (Num lh) w = getHeightForLines this n (Num lh) w' \<and>
   Metrics.fontSize (fst (getMetrics this w)) = Metrics.fontSize (fst (getMetrics this w')) \<and>
   ascent (fst (getMetrics this w)) = ascent (fst (getMetrics this w')) \<and>
   descent (fst (getMetrics this w)) = descent (fst (getMetrics this w')) \<and>
   minLineHeight (fst (getMetrics this w)) = minLineHeight (fst (getMetrics this w')) \<and>
   (style.lineHeight (getComputedStyle w (element this)) =
    style.lineHeight (getComputedStyle w' (element this)) \<longrightarrow>
      getElementLineHeight this w = getElementLineHeight this w' \<and>
      getHeightForLines this n Undefined w = getHeightForLines this n Undefined w' \<and>
      fst (getMetrics this w) = fst (getMetrics this w'))"
proof -
  have m: "fst (getMinLineHeight this w) = fst (getMinLineHeight this w')"
    by (simp add: getMinLineHeight_value)
  have h': "getHeightForLines this n (Num lh) w = getHeightForLines this n (Num lh) w'"
    by (simp add: getHeightForLines_def)
  have mh: "fst (getMinHeightForLines this n w) = fst (getMinHeightForLines this n w')"
    by (simp add: getMinHeightForLines_def getHeightForLines_def case_prod_beta m)
  have g1: "Metrics.fontSize (fst (getMetrics this w)) =
            Metrics.fontSize (fst (getMetrics this w'))"
    and g2: "ascent (fst (getMetrics this w)) = ascent (fst (getMetrics this w'))"
    and g3: "descent (fst (getMetrics this w)) = descent (fst (getMetrics this w'))"
    and g4: "minLineHeight (fst (getMetrics this w)) = minLineHeight (fst (getMetrics this w'))"
    by (simp_all add: getMetrics_def case_prod_beta m)
  have e1: "getElementLineHeight this (snd (getMinLineHeight this w)) =
            getElementLineHeight this w"
    by (rule getElementLineHeight_cong) (simp add: getComputedStyle_getMinLineHeight)
  have e2: "getElementLineHeight this (snd (getMinLineHeight this w')) =
            getElementLineHeight this w'"
    by (rule getElementLineHeight_cong) (simp add: getComputedStyle_getMinLineHeight)
  have c: "getElementLineHeight this w = getElementLineHeight this w' \<and>
      getHeightForLines this n Undefined w = getHeightForLines this n Undefined w' \<and>
      fst (getMetrics this w) = fst (getMetrics this w')"
    if s: "style.lineHeight (getComputedStyle w (element this)) =
           style.lineHeight (getComputedStyle w' (element this))"
  proof -
    have e: "getElementLineHeight this w = getElementLineHeight this w'"
      using s by (rule getElementLineHeight_cong)
    have h: "getHeightForLines this n Undefined w = getHeightForLines this n Undefined w'"
      by (simp add: getHeightForLines_def e)
    have g: "fst (getMetrics this w) = fst (getMetrics this w')"
      by (simp add: getMetrics_def case_prod_beta m e e1 e2)
    from e h g show ?thesis by simp
  qed
  from m mh h' g1 g2 g3 g4 c show ?thesis
    by blast
qed

text \<open>
  C7, an instance. The helper of ascent 30 and descent 6 at 48px, first on a page where its element has
  the line-height \<open>57.6px\<close>, then after the page has set it to \<open>96px\<close>: the minimal
  line-height is 0.75 and the minimal height for two lines 72 in both states. On a third
  page, where only the font size differs from the first, the line-height of the element
  is 1.2 as on the first.
\<close>

theorem accessors_depend_on_line_height_only_witness:
  "fst (getMinLineHeight (helper48 (Num (Fin 30)) (Num (Fin 6)))
       (page ''48px'' ''57.6px'' (Num (Fin 30)) (Num (Fin 6)))) = Fin 0.75 \<and>
   fst (getMinLineHeight (helper48 (Num (Fin 30)) (Num (Fin 6)))
       (setLineHeight 0 ''96px'' (page ''48px'' ''57.6px'' (Num (Fin 30)) (Num (Fin 6))))) =
     Fin 0.75 \<and>
   fst (getMinHeightForLines (helper48 (Num (Fin 30)) (Num (Fin 6))) (Num (Fin 2))
       (page ''48px'' ''57.6px'' (Num (Fin 30)) (Num (Fin 6)))) = Fin 72 \<and>
   fst (getMinHeightForLines (helper48 (Num (Fin 30)) (Num (Fin 6))) (Num (Fin 2))
       (setLineHeight 0 ''96px'' (page ''48px'' ''57.6px'' (Num (Fin 30)) (Num (Fin 6))))) =
     Fin 72 \<and>
   style.lineHeight (getComputedStyle (page ''48px'' ''57.6px'' (Num (Fin 30)) (Num (Fin 6)))
       (element (helper48 (Num (Fin 30)) (Num (Fin 6))))) =
   style.lineHeight (getComputedStyle (page ''12px'' ''57.6px'' (Num (Fin 30)) (Num (Fin 6)))
       (element (helper48 (Num (Fin 30)) (Num (Fin 6))))) \<and>
   getElementLineHeight (helper48 (Num (Fin 30)) (Num (Fin 6)))
       (page ''48px'' ''57.6px'' (Num (Fin 30)) (Num (Fin 6))) = Fin 1.2 \<and>
   getElementLineHeight (helper48 (Num (Fin 30)) (Num (Fin 6)))
       (page ''12px'' ''57.6px'' (Num (Fin 30)) (Num (Fin 6))) = Fin 1.2"
proof -
  let ?h = "helper48 (Num (Fin 30)) (Num (Fin 6))"
  let ?w = "page ''48px'' ''57.6px'' (Num (Fin 30)) (Num (Fin 6))"
  let ?w1 = "setLineHeight 0 ''96px'' ?w"
  let ?w2 = "page ''12px'' ''57.6px'' (Num (Fin 30)) (Num (Fin 6))"
  have s: "style.lineHeight (getComputedStyle ?w (element ?h)) =
           style.lineHeight (getComputedStyle ?w2 (element ?h))"
    by (simp add: page_def)
  have m: "fst (getMinLineHeight ?h ?w) = Fin 0.75"
    by (simp add: getMinLineHeight_def helper48_def js_plus_def)
  have mh: "fst (getMinHeightForLines ?h (Num (Fin 2)) ?w) = Fin 72"
    by (simp add: getMinHeightForLines_def getHeightForLines_def case_prod_beta m)
       (simp add: helper48_def)
  have e: "getElementLineHeight ?h ?w = Fin 1.2"
    by (simp add: getElementLineHeight_page parseFloat_57_6px)
  note t1 = accessors_depend_on_line_height_only
    [where this = ?h and w = ?w and w' = ?w1 and n = "Num (Fin 2)" and lh = "Fin 0"]
  note t2 = accessors_depend_on_line_height_only
    [where this = ?h and w = ?w and w' = ?w2 and n = "Num (Fin 2)" and lh = "Fin 0"]
  have m1: "fst (getMinLineHeight ?h ?w1) = Fin 0.75"
    using t1 m by simp
  have mh1: "fst (getMinHeightForLines ?h (Num (Fin 2)) ?w1) = Fin 72"
    using t1 mh by simp
  have e2: "getElementLineHeight ?h ?w2 = Fin 1.2"
    using t2 s e by simp
  from m m1 mh mh1 s e e2 show ?thesis
    by simp
qed

section \<open>The snapshot\<close>

text \<open>
  C8. For every helper, \<open>getMetrics()\<close> returns a snapshot whose \<open>minLineHeight\<close> is the
  value of \<open>getMinLineHeight()\<close> and whose \<open>currentLineHeight\<close> is the value of
  \<open>getElementLineHeight()\<close> in the same state of the page, and whose \<open>ascent\<close> and
  \<open>descent\<close> are the measured values as they are: \<open>undefined\<close> stays \<open>undefined\<close>. The
  equalities are of values: where the value is \<open>NaN\<close>, both sides are \<open>NaN\<close>.
\<close>

theorem getMetrics_snapshot:
  "minLineHeight (fst (getMetrics this w)) = fst (getMinLineHeight this w) \<and>
   currentLineHeight (fst (getMetrics this w)) = getElementLineHeight this w \<and>
   ascent (fst (getMetrics this w)) = actualBoundingBoxAscent (metrics this) \<and>
   descent (fst (getMetrics this w)) = actualBoundingBoxDescent (metrics this) \<and>
   Metrics.fontSize (fst (getMetrics this w)) = TextMetricsHelper.fontSize this \<and>
   snd (getMetrics this w) = snd (getMinLineHeight this w)"
  by (simp add: getMetrics_def getMinLineHeight_def getElementLineHeight_console_warn)

theorem getMetrics_snapshot_witness:
  "ascent (fst (getMetrics (helper48 Undefined Undefined)
       (page ''48px'' ''57.6px'' Undefined Undefined))) = Undefined \<and>
   descent (fst (getMetrics (helper48 Undefined Undefined)
       (page ''48px'' ''57.6px'' Undefined Undefined))) = Undefined \<and>
   minLineHeight (fst (getMetrics (helper48 Undefined Undefined)
       (page ''48px'' ''57.6px'' Undefined Undefined))) = Fin 1 \<and>
   currentLineHeight (fst (getMetrics (helper48 Undefined Undefined)
       (page ''48px'' ''57.6px'' Undefined Undefined))) = Fin 1.2"
  using getMetrics_snapshot [of "helper48 Undefined Undefined"
      "page ''48px'' ''57.6px'' Undefined Undefined"]
  by (simp add: getElementLineHeight_page parseFloat_57_6px getMinLineHeight_def)
     (simp add: helper48_def)

section \<open>Construction without a target\<close>

text \<open>
  C9. Constructing a helper with no element (\<open>null\<close> or \<open>undefined\<close>) throws the error
  \<open>TextMetricsHelper: no element provided.\<close>. No helper is produced, and the browser is as before the call:
  nothing was measured and nothing was logged.
\<close>

theorem constructor_no_element:
  "constructor None refText w = (Inl (Error ''TextMetricsHelper: no element provided.''), w)"
  by (simp add: constructor_def)

theorem constructor_no_element_witness:
  "constructor None None (page ''48px'' ''normal'' (Num (Fin 40)) (Num (Fin 8))) =
     (Inl (Error ''TextMetricsHelper: no element provided.''),
      page ''48px'' ''normal'' (Num (Fin 40)) (Num (Fin 8))) \<and>
   measured (snd (constructor None None
       (page ''48px'' ''normal'' (Num (Fin 40)) (Num (Fin 8))))) = []"
  using constructor_no_element [of None "page ''48px'' ''normal'' (Num (Fin 40)) (Num (Fin 8))"]
  by (simp add: page_def)

section \<open>The default line count\<close>

text \<open>
  C10. With the line count omitted it is 1: \<open>getHeightForLines()\<close> returns the value of
  \<open>getElementLineHeight()\<close> times fontSize, \<open>getHeightForLines(undefined, lh)\<close> returns
  \<open>lh\<close> times fontSize, and \<open>getMinHeightForLines()\<close> returns the value of
  \<open>getMinLineHeight()\<close> times fontSize, with the warning of that call if it wrote one.
\<close>

theorem lineCount_default:
  "getHeightForLines this Undefined Undefined w =
     jmul (getElementLineHeight this w) (TextMetricsHelper.fontSize this) \<and>
   getHeightForLines this Undefined (Num lh) w = jmul lh (TextMetricsHelper.fontSize this) \<and>
   getMinHeightForLines this Undefined w =
     (jmul (fst (getMinLineHeight this w)) (TextMetricsHelper.fontSize this),
      snd (getMinLineHeight this w))"
  by (simp add: getHeightForLines_def getMinHeightForLines_def jmul_one split: prod.split)

theorem lineCount_default_witness:
  "getHeightForLines (helper48 (Num (Fin 40)) (Num (Fin 8))) Undefined Undefined
       (page ''48px'' ''57.6px'' (Num (Fin 40)) (Num (Fin 8))) = Fin 57.6 \<and>
   fst (getMinHeightForLines (helper48 (Num (Fin 40)) (Num (Fin 8))) Undefined
       (page ''48px'' ''57.6px'' (Num (Fin 40)) (Num (Fin 8)))) = Fin 48"
proof -
  let ?h = "helper48 (Num (Fin 40)) (Num (Fin 8))"
  let ?w = "page ''48px'' ''57.6px'' (Num (Fin 40)) (Num (Fin 8))"
  have fs: "TextMetricsHelper.fontSize ?h = Fin 48"
    by (simp add: helper48_def)
  have cur: "getElementLineHeight ?h ?w = Fin 1.2"
    by (simp add: getElementLineHeight_page parseFloat_57_6px)
  have mn: "fst (getMinLineHeight ?h ?w) = Fin 1"
    by (simp add: getMinLineHeight_def helper48_def js_plus_def)
  from lineCount_default [of ?h ?w "Fin 1"] show ?thesis
    by (simp add: fs cur mn)
qed

end
